theory Spec2Isabelle
  imports Complex_Main
begin

section \<open>Dates and timestamps\<close>

text \<open>
  The scanner works with Python \<open>datetime\<close> and \<open>date\<close> values. A \<open>date\<close> is modelled
  as its day number (an unbounded integer), a \<open>datetime\<close> as the number of seconds since
  day 0 (sub-second resolution is not used by any comparison in the code).
  \<open>d.date()\<close> is then floor division by the seconds of a day,
  \<open>datetime.combine(d, datetime.min.time())\<close> is midnight of day \<open>d\<close>, and
  \<open>timedelta(days=k)\<close> is \<open>k\<close> days of seconds.
\<close>

type_synonym date = int
type_synonym datetime = int

definition seconds_per_day :: int where
  "seconds_per_day = 86400"

definition date_of :: "datetime \<Rightarrow> date" where
  "date_of t = t div seconds_per_day"

definition combine_min_time :: "date \<Rightarrow> datetime" where
  "combine_min_time d = d * seconds_per_day"

definition timedelta_days :: "int \<Rightarrow> int" where
  "timedelta_days k = k * seconds_per_day"

section \<open>Floating point values\<close>

text \<open>
  Prices and indicator values are 64-bit floats (pandas/numpy scalars). They are modelled
  as exact reals extended with the three special values the code can produce or test
  for: not-a-number (tested by \<open>pd.isna\<close>, produced by \<open>min\<close> of an empty series and
  by \<open>0/0\<close>) and the two infinities (produced by numpy's division by zero, which warns
  instead of raising). Rounding and signed zeros are not modelled.
\<close>

datatype fl = Fin real | PInf | NInf | NaN

fun fneg :: "fl \<Rightarrow> fl" where
  "fneg (Fin a) = Fin (- a)"
| "fneg PInf = NInf"
| "fneg NInf = PInf"
| "fneg NaN = NaN"

fun fadd :: "fl \<Rightarrow> fl \<Rightarrow> fl" where
  "fadd (Fin a) (Fin b) = Fin (a + b)"
| "fadd NaN _ = NaN"
| "fadd _ NaN = NaN"
| "fadd PInf NInf = NaN"
| "fadd NInf PInf = NaN"
| "fadd PInf _ = PInf"
| "fadd _ PInf = PInf"
| "fadd NInf _ = NInf"
| "fadd _ NInf = NInf"

definition fsub :: "fl \<Rightarrow> fl \<Rightarrow> fl" where
  "fsub a b = fadd a (fneg b)"

text \<open>The sign of a non-NaN value: \<open>-1\<close>, \<open>0\<close> or \<open>1\<close>.\<close>

fun fsign :: "fl \<Rightarrow> int" where
  "fsign (Fin a) = (if a < 0 then - 1 else if a = 0 then 0 else 1)"
| "fsign PInf = 1"
| "fsign NInf = - 1"
| "fsign NaN = 0"

definition inf_of_sign :: "int \<Rightarrow> fl" where
  "inf_of_sign s = (if s < 0 then NInf else if s = 0 then NaN else PInf)"

fun fmul :: "fl \<Rightarrow> fl \<Rightarrow> fl" where
  "fmul (Fin a) (Fin b) = Fin (a * b)"
| "fmul NaN _ = NaN"
| "fmul _ NaN = NaN"
| "fmul a b = inf_of_sign (fsign a * fsign b)"

fun fdiv :: "fl \<Rightarrow> fl \<Rightarrow> fl" where
  "fdiv (Fin a) (Fin b) = (if b = 0 then inf_of_sign (fsign (Fin a)) else Fin (a / b))"
| "fdiv NaN _ = NaN"
| "fdiv _ NaN = NaN"
| "fdiv (Fin a) _ = Fin 0"
| "fdiv a (Fin b) = inf_of_sign (fsign a * (if b < 0 then - 1 else 1))"
| "fdiv _ _ = NaN"

fun flt :: "fl \<Rightarrow> fl \<Rightarrow> bool" where
  "flt (Fin a) (Fin b) = (a < b)"
| "flt NaN _ = False"
| "flt _ NaN = False"
| "flt NInf NInf = False"
| "flt NInf _ = True"
| "flt PInf _ = False"
| "flt _ PInf = True"
| "flt _ NInf = False"

definition fgt :: "fl \<Rightarrow> fl \<Rightarrow> bool" where
  "fgt a b = flt b a"

definition fle :: "fl \<Rightarrow> fl \<Rightarrow> bool" where
  "fle a b = (a \<noteq> NaN \<and> b \<noteq> NaN \<and> \<not> flt b a)"

definition fge :: "fl \<Rightarrow> fl \<Rightarrow> bool" where
  "fge a b = fle b a"

definition isna :: "fl \<Rightarrow> bool" where
  "isna a = (a = NaN)"

text \<open>
  Python's builtin \<open>min(a, b)\<close> returns \<open>b\<close> only when \<open>b < a\<close>, and \<open>max(a, b)\<close>
  returns \<open>b\<close> only when \<open>b > a\<close>; a NaN second argument therefore yields \<open>a\<close>.
\<close>

definition py_min :: "fl \<Rightarrow> fl \<Rightarrow> fl" where
  "py_min a b = (if flt b a then b else a)"

definition py_max :: "fl \<Rightarrow> fl \<Rightarrow> fl" where
  "py_max a b = (if fgt b a then b else a)"

text \<open>
  \<open>Series.min()\<close> and \<open>Series.max()\<close> skip NaN entries and return NaN when nothing
  is left.
\<close>

definition dropna :: "fl list \<Rightarrow> fl list" where
  "dropna xs = filter (\<lambda>x. \<not> isna x) xs"

definition series_min :: "fl list \<Rightarrow> fl" where
  "series_min xs = (case dropna xs of [] \<Rightarrow> NaN | y # ys \<Rightarrow> fold (\<lambda>x m. if flt x m then x else m) ys y)"

definition series_max :: "fl list \<Rightarrow> fl" where
  "series_max xs = (case dropna xs of [] \<Rightarrow> NaN | y # ys \<Rightarrow> fold (\<lambda>x m. if flt m x then x else m) ys y)"

section \<open>Configuration (config/settings.py)\<close>

definition RSI_WINDOW :: nat where "RSI_WINDOW = 14"
definition ATR_WINDOW :: nat where "ATR_WINDOW = 14"
definition RSI_LOOKBACK_DAYS :: nat where "RSI_LOOKBACK_DAYS = 7"
definition RSI_HIGH_THRESHOLD :: fl where "RSI_HIGH_THRESHOLD = Fin 90"
definition RSI_LOW_THRESHOLD :: fl where "RSI_LOW_THRESHOLD = Fin 10"
definition OVEREXTENDED_LOOKBACK_DAYS :: nat where "OVEREXTENDED_LOOKBACK_DAYS = 5"
definition OVEREXTENDED_ATR_MULTIPLIER :: int where "OVEREXTENDED_ATR_MULTIPLIER = 5"
definition HIST_DAYS :: int where "HIST_DAYS = 30"
definition MAX_CACHE_AGE_DAYS :: int where "MAX_CACHE_AGE_DAYS = 1"

section \<open>Exceptions\<close>

text \<open>
  Exceptions (subclasses of Python's \<open>Exception\<close>) are values; each carries the
  message that \<open>str(e)\<close> returns.
\<close>

datatype error =
    IntegrityError string
  | InterfaceError string
  | OperationalError string
  | OverflowError string
  | AttributeError string
  | ValueError string
  | TypeError string
  | OtherError string

fun str_error :: "error \<Rightarrow> string" where
  "str_error (IntegrityError m) = m"
| "str_error (InterfaceError m) = m"
| "str_error (OperationalError m) = m"
| "str_error (OverflowError m) = m"
| "str_error (AttributeError m) = m"
| "str_error (ValueError m) = m"
| "str_error (TypeError m) = m"
| "str_error (OtherError m) = m"

definition quoted :: "string \<Rightarrow> string" where
  "quoted s = CHR 0x27 # s @ [CHR 0x27]"

text \<open>Sequencing of fallible steps: the first exception ends the computation.\<close>

definition and_then :: "error + 'a \<Rightarrow> ('a \<Rightarrow> error + 'b) \<Rightarrow> error + 'b" where
  "and_then m f = (case m of Inl e \<Rightarrow> Inl e | Inr x \<Rightarrow> f x)"

section \<open>The persistent store (src/database.py)\<close>

text \<open>
  The \<open>date\<close> column of a data frame holds either \<open>datetime.date\<close> objects (the
  frames \<open>ib_insync.util.df\<close> builds from daily bars) or pandas timestamps (the frames
  of the tests, built with \<open>pd.date_range\<close>). SQLite stores the former as the text
  \<open>YYYY-MM-DD\<close> and the latter as \<open>YYYY-MM-DD HH:MM:SS\<close>; a cell of the stored column
  is modelled by the value it was written from.
\<close>

datatype date_cell = DateObj date | Timestamp datetime

fun cell_day :: "date_cell \<Rightarrow> date" where
  "cell_day (DateObj d) = d"
| "cell_day (Timestamp t) = date_of t"

fun is_stamp :: "date_cell \<Rightarrow> bool" where
  "is_stamp (DateObj d) = False"
| "is_stamp (Timestamp t) = True"

text \<open>
  SQLite compares the stored texts bytewise. For ISO texts this is the order of the
  days, with the date-only text of a day before every text of that day with a time part,
  and those ordered by the time. \<open>text_rank\<close> is a number with that order.
\<close>

fun text_rank :: "date_cell \<Rightarrow> int" where
  "text_rank (DateObj d) = d * (seconds_per_day + 1)"
| "text_rank (Timestamp t) = date_of t * (seconds_per_day + 1) + 1 + t mod seconds_per_day"

text \<open>The chronological order that pandas uses for \<open>Series.max()\<close>.\<close>

fun chron_key :: "date_cell \<Rightarrow> datetime" where
  "chron_key (DateObj d) = combine_min_time d"
| "chron_key (Timestamp t) = t"

text \<open>
  A data frame of daily bars is a list of rows in frame order. A row of the
  \<open>price_data\<close> table is a bar together with its symbol; the surrogate columns
  \<open>id\<close> and \<open>created_at\<close> are read by no query of the scanner and are left out.
  \<open>cache_metadata\<close> has \<open>symbol\<close> as primary key and is written with
  \<open>INSERT OR REPLACE\<close>, so it is a map from symbols to rows.
\<close>

record bar =
  date :: date_cell
  openp :: fl
  high :: fl
  low :: fl
  close :: fl
  volume :: int

record price_row = bar +
  symbol :: string

record meta_row =
  last_updated :: datetime
  last_date :: "date option"
  record_count :: nat

record db =
  price_data :: "price_row list"
  cache_metadata :: "string \<rightharpoonup> meta_row"

definition unique_failed :: error where
  "unique_failed = IntegrityError ''UNIQUE constraint failed: price_data.symbol, price_data.date''"

definition too_many_variables :: error where
  "too_many_variables = OperationalError ''too many SQL variables''"

definition unsupported_type :: error where
  "unsupported_type = InterfaceError ''Error binding parameter: type Timestamp is not supported''"

definition int_too_large :: error where
  "int_too_large = OverflowError ''Python int too large to convert to SQLite INTEGER''"

definition no_date_attribute :: error where
  "no_date_attribute =
     AttributeError (quoted ''datetime.date'' @ '' object has no attribute '' @ quoted ''date'')"

definition unconverted_data :: error where
  "unconverted_data = ValueError ''unconverted data remains''"

text \<open>SQL \<open>MIN\<close>/\<open>MAX\<close> over the selected texts: \<open>NULL\<close> when no row is selected.\<close>

fun sql_min :: "date_cell list \<Rightarrow> date_cell option" where
  "sql_min [] = None"
| "sql_min (x # xs) =
     (case sql_min xs of
        None \<Rightarrow> Some x
      | Some m \<Rightarrow> Some (if text_rank x \<le> text_rank m then x else m))"

fun sql_max :: "date_cell list \<Rightarrow> date_cell option" where
  "sql_max [] = None"
| "sql_max (x # xs) =
     (case sql_max xs of
        None \<Rightarrow> Some x
      | Some m \<Rightarrow> Some (if text_rank m \<le> text_rank x then x else m))"

definition symbol_rows :: "db \<Rightarrow> string \<Rightarrow> price_row list" where
  "symbol_rows st s = filter (\<lambda>r. symbol r = s) (price_data st)"

definition symbol_dates :: "db \<Rightarrow> string \<Rightarrow> date_cell list" where
  "symbol_dates st s = map date (symbol_rows st s)"

text \<open>
  \<open>get_cached_price_data\<close>: the rows of the symbol whose stored date text lies
  between the texts of \<open>start_date.date()\<close> and \<open>end_date.date()\<close>, ordered by
  date; \<open>None\<close> when the frame is empty.
\<close>

definition get_cached_price_data :: "db \<Rightarrow> string \<Rightarrow> datetime \<Rightarrow> datetime \<Rightarrow> price_row list option" where
  "get_cached_price_data st s start_date end_date =
     (let df = sort_key (\<lambda>r. text_rank (date r))
                 (filter (\<lambda>r. text_rank (date r) \<ge> text_rank (DateObj (date_of start_date))
                              \<and> text_rank (date r) \<le> text_rank (DateObj (date_of end_date)))
                    (symbol_rows st s))
      in if df = [] then None else Some df)"

text \<open>
  \<open>to_sql(..., if_exists='append', method='multi')\<close> issues a plain multi-row
  \<open>INSERT\<close> inside a transaction of its own, which pandas commits on success and
  rolls back on an exception. The statement has one parameter for each of the seven
  columns of each row; SQLite refuses to prepare a statement with more parameters than
  its limit (32766 since SQLite 3.32).

  First the parameters are bound, row by row and in column order within a row. A
  \<open>datetime64\<close> column (every cell a timestamp) is converted by pandas to
  \<open>datetime\<close> objects, which SQLite adapts; in an \<open>object\<close> column a
  \<open>datetime.date\<close> is adapted, a pandas timestamp is not (an interface error; a
  programming error from Python 3.11 on). An integer outside the 64-bit signed range
  cannot be bound.
\<close>

definition SQLITE_MAX_VARIABLE_NUMBER :: nat where
  "SQLITE_MAX_VARIABLE_NUMBER = 32766"

datatype column_dtype = Datetime64 | Object

definition date_dtype :: "bar list \<Rightarrow> column_dtype" where
  "date_dtype df = (if list_all (\<lambda>b. is_stamp (date b)) df then Datetime64 else Object)"

definition fits_int64 :: "int \<Rightarrow> bool" where
  "fits_int64 v = (- (2 ^ 63) \<le> v \<and> v < 2 ^ 63)"

fun bind_rows :: "column_dtype \<Rightarrow> bar list \<Rightarrow> error option" where
  "bind_rows dt [] = None"
| "bind_rows dt (b # bs) =
     (if dt = Object \<and> is_stamp (date b) then Some unsupported_type
      else if \<not> fits_int64 (volume b) then Some int_too_large
      else bind_rows dt bs)"

text \<open>
  Then the statement runs. The table is declared \<open>UNIQUE(symbol, date)\<close>, so a row
  whose key is already present (in the table, or earlier in the same statement) aborts
  the statement with an integrity error.
\<close>

definition key_conflict :: "price_row list \<Rightarrow> price_row \<Rightarrow> bool" where
  "key_conflict tbl r = list_ex (\<lambda>q. symbol q = symbol r \<and> date q = date r) tbl"

fun insert_rows :: "price_row list \<Rightarrow> price_row list \<Rightarrow> error + price_row list" where
  "insert_rows tbl [] = Inr tbl"
| "insert_rows tbl (r # rs) =
     (if key_conflict tbl r then Inl unique_failed else insert_rows (tbl @ [r]) rs)"

definition with_symbol :: "string \<Rightarrow> bar \<Rightarrow> price_row" where
  "with_symbol s b = bar.extend b \<lparr>symbol = s\<rparr>"

text \<open>\<open>df['date'].max()\<close>: the latest cell of the column.\<close>

fun column_max :: "date_cell list \<Rightarrow> date_cell option" where
  "column_max [] = None"
| "column_max (x # xs) =
     (case column_max xs of
        None \<Rightarrow> Some x
      | Some m \<Rightarrow> Some (if chron_key m < chron_key x then x else m))"

text \<open>
  \<open>df['date'].max().date() if not df.empty else None\<close>: a timestamp has a
  \<open>date()\<close> method, a \<open>datetime.date\<close> has none.
\<close>

definition last_date_arg :: "bar list \<Rightarrow> error + date option" where
  "last_date_arg df =
     (case column_max (map date df) of
        None \<Rightarrow> Inr None
      | Some (Timestamp t) \<Rightarrow> Inr (Some (date_of t))
      | Some (DateObj d) \<Rightarrow> Inl no_date_attribute)"

text \<open>
  \<open>save_price_data\<close>: \<open>now\<close> is the value of \<open>datetime.now()\<close> at the call. The
  result is the store after the call together with the exception the call raised, if
  any. An exception while preparing, binding or inserting leaves the store as it was; an
  exception while the metadata row is prepared comes after pandas has committed the
  inserted rows.
\<close>

definition save_price_data :: "db \<Rightarrow> string \<Rightarrow> bar list \<Rightarrow> datetime \<Rightarrow> db \<times> error option" where
  "save_price_data st s df now =
     (if df = [] then (st, None)
      else if 7 * length df > SQLITE_MAX_VARIABLE_NUMBER then (st, Some too_many_variables)
      else case bind_rows (date_dtype df) df of
             Some e \<Rightarrow> (st, Some e)
           | None \<Rightarrow>
               (case insert_rows (price_data st) (map (with_symbol s) df) of
                  Inl e \<Rightarrow> (st, Some e)
                | Inr tbl \<Rightarrow>
                    (case last_date_arg df of
                       Inl e \<Rightarrow> (st\<lparr>price_data := tbl\<rparr>, Some e)
                     | Inr d \<Rightarrow>
                         (st\<lparr>price_data := tbl,
                             cache_metadata := (cache_metadata st)
                               (s \<mapsto> \<lparr>last_updated = now, last_date = d,
                                       record_count = length df\<rparr>)\<rparr>,
                          None))))"

definition is_data_fresh :: "db \<Rightarrow> string \<Rightarrow> datetime \<Rightarrow> bool" where
  "is_data_fresh st s now =
     (case cache_metadata st s of
        None \<Rightarrow> False
      | Some m \<Rightarrow> (now - last_updated m) div seconds_per_day < MAX_CACHE_AGE_DAYS)"

text \<open>
  \<open>datetime.strptime(text, '%Y-%m-%d')\<close> accepts the date-only text and raises a
  \<open>ValueError\<close> on a text with a time part.
\<close>

fun strptime_date :: "date_cell \<Rightarrow> error + date" where
  "strptime_date (DateObj d) = Inr d"
| "strptime_date (Timestamp t) = Inl unconverted_data"

definition get_missing_date_range ::
    "db \<Rightarrow> string \<Rightarrow> datetime \<Rightarrow> datetime \<Rightarrow> error + (datetime \<times> datetime) option" where
  "get_missing_date_range st s required_start required_end =
     (case sql_min (symbol_dates st s) of
        None \<Rightarrow> Inr (Some (required_start, required_end))
      | Some min_date \<Rightarrow>
          (case sql_max (symbol_dates st s) of
             None \<Rightarrow> Inr (Some (required_start, required_end))
           | Some max_date \<Rightarrow>
               and_then (strptime_date min_date) (\<lambda>cached_start.
               and_then (strptime_date max_date) (\<lambda>cached_end.
                 if cached_start \<le> date_of required_start \<and> cached_end \<ge> date_of required_end
                 then Inr None
                 else
                   let fetch_start = (if cached_end < date_of required_end
                                      then combine_min_time (cached_end + 1) else required_start);
                       fetch_end = (if cached_start > date_of required_start
                                    then combine_min_time (cached_start - 1) else required_end)
                   in Inr (Some (fetch_start, fetch_end))))))"

section \<open>The cache coordinator (src/cache_manager.py)\<close>

definition get_required_data_range :: "datetime \<Rightarrow> datetime \<times> datetime" where
  "get_required_data_range now = (now - timedelta_days HIST_DAYS, now)"

definition should_fetch_data :: "db \<Rightarrow> string \<Rightarrow> datetime \<Rightarrow> bool" where
  "should_fetch_data st s now =
     (if \<not> is_data_fresh st s now then True
      else
        let (start_date, end_date) = get_required_data_range now;
            cached_data = get_cached_price_data st s start_date end_date
        in (case cached_data of None \<Rightarrow> True | Some df \<Rightarrow> length df < 20))"

definition get_fetch_strategy ::
    "db \<Rightarrow> string \<Rightarrow> datetime \<Rightarrow> error + (datetime \<times> datetime) option" where
  "get_fetch_strategy st s now =
     (if \<not> should_fetch_data st s now then Inr None
      else
        let (required_start, required_end) = get_required_data_range now
        in get_missing_date_range st s required_start required_end)"

section \<open>The indicator engine (src/indicators.py)\<close>

text \<open>
  The measurement dictionary returned by \<open>check_overextended\<close>. A field holding
  Python's \<open>None\<close> is \<open>None\<close>; a field holding a float (which may be NaN or infinite)
  is \<open>Some\<close> of it.
\<close>

record measurement =
  is_overextended :: bool
  swing_low :: "fl option"
  swing_high :: "fl option"
  atr :: "fl option"
  atr_contribution :: "fl option"
  threshold :: "fl option"
  current_price :: "fl option"
  distance_from_threshold :: "fl option"
  distance_pct :: "fl option"
  proximity_pct :: "fl option"
  price_range :: "fl option"
  calculation_valid :: bool

definition initial_result :: "fl option \<Rightarrow> measurement" where
  "initial_result atr_value =
     \<lparr>is_overextended = False, swing_low = None, swing_high = None, atr = atr_value,
      atr_contribution = None, threshold = None, current_price = None,
      distance_from_threshold = None, distance_pct = None, proximity_pct = None,
      price_range = None, calculation_valid = False\<rparr>"

text \<open>
  \<open>df.iloc[-k:]\<close> for a positive \<open>k\<close> is the last \<open>k\<close> rows (all rows when the frame
  is shorter); \<open>df.iloc[-0:]\<close> is \<open>df.iloc[0:]\<close>, the whole frame.
  \<open>df.iloc[:-1]\<close> drops the last row.
\<close>

definition iloc_last :: "nat \<Rightarrow> 'a list \<Rightarrow> 'a list" where
  "iloc_last k xs = (if k = 0 then xs else drop (length xs - k) xs)"

text \<open>
  \<open>check_overextended df atr_value lookback_days atr_multiplier\<close>. The lookback is a
  count of days, a natural number; \<open>atr_value\<close> is \<open>None\<close> for Python's \<open>None\<close>.
\<close>

definition check_overextended :: "bar list \<Rightarrow> fl option \<Rightarrow> nat \<Rightarrow> int \<Rightarrow> measurement" where
  "check_overextended df atr_value lookback_days atr_multiplier =
     (let result = initial_result atr_value in
      if df = [] \<or> length df < lookback_days + 1 then result
      else
        let recent_data = iloc_last (lookback_days + 1) df in
        if recent_data = [] then result
        else
          let prev_days_data = butlast recent_data;
              sl = series_min (map low prev_days_data);
              sh = series_max (map high prev_days_data);
              cp = close (last df);
              result = result\<lparr>swing_low := Some sl, swing_high := Some sh,
                              current_price := Some cp, price_range := Some (fsub sh sl)\<rparr>
          in (case atr_value of
                None \<Rightarrow> result
              | Some a \<Rightarrow>
                  if isna a then result
                  else
                    let contribution = fmul a (Fin (of_int atr_multiplier));
                        overextended_threshold = fadd sl contribution;
                        distance = fsub cp overextended_threshold;
                        dpct = fmul (fdiv distance overextended_threshold) (Fin 100);
                        prox = (if fgt overextended_threshold sl
                                then py_max (Fin 0) (py_min (Fin 100)
                                       (fmul (fdiv (fsub cp sl) (fsub overextended_threshold sl))
                                          (Fin 100)))
                                else Fin 0)
                    in result\<lparr>is_overextended := fgt cp overextended_threshold,
                               atr_contribution := Some contribution,
                               threshold := Some overextended_threshold,
                               distance_from_threshold := Some distance,
                               distance_pct := Some dpct,
                               proximity_pct := Some prox,
                               calculation_valid := True\<rparr>))"

text \<open>
  \<open>check_rsi_extremes rsi_series lookback_days high_threshold low_threshold\<close>
  returns \<open>(hit_high, hit_low, max_rsi, min_rsi)\<close>.
\<close>

definition check_rsi_extremes ::
    "fl list \<Rightarrow> nat \<Rightarrow> fl \<Rightarrow> fl \<Rightarrow> bool \<times> bool \<times> fl option \<times> fl option" where
  "check_rsi_extremes rsi_series lookback_days high_threshold low_threshold =
     (if rsi_series = [] \<or> length rsi_series < lookback_days then (False, False, None, None)
      else
        let recent_rsi = iloc_last lookback_days (dropna rsi_series) in
        if recent_rsi = [] then (False, False, None, None)
        else
          let max_rsi = series_max recent_rsi;
              min_rsi = series_min recent_rsi
          in (fge max_rsi high_threshold, fle min_rsi low_threshold, Some max_rsi, Some min_rsi))"


section \<open>The per-instrument scan pass (src/scanner.py)\<close>

text \<open>
  \<open>scan_symbol\<close> calls collaborators that can raise: the cached/remote history
  lookup, the \<open>ta\<close> indicator library, and the store's write and read paths. Each is
  a parameter of the model returning either the exception or its value.
\<close>

record env =
  get_historical_data :: "string \<Rightarrow> error + bar list"
  ta_rsi :: "bar list \<Rightarrow> error + fl list"
  ta_atr :: "bar list \<Rightarrow> error + fl list"
  save_indicators :: "string \<Rightarrow> bar list \<Rightarrow> fl list \<Rightarrow> fl list \<Rightarrow> error + unit"
  cache_should_fetch :: "string \<Rightarrow> error + bool"
  save_scan_result :: "string \<Rightarrow> fl \<Rightarrow> fl \<Rightarrow> bool \<Rightarrow> bool \<Rightarrow> string \<Rightarrow> bool \<Rightarrow>
                       fl option \<Rightarrow> fl option \<Rightarrow> fl option \<Rightarrow> error + unit"

text \<open>
  \<open>compute_indicators\<close> returns
  \<open>(rsi_series, atr_series, (latest_rsi, latest_atr))\<close>, all \<open>None\<close> on a short frame.
\<close>

definition compute_indicators ::
    "env \<Rightarrow> bar list \<Rightarrow> error + (fl list option \<times> fl list option \<times> fl option \<times> fl option)" where
  "compute_indicators ev df =
     (if df = [] \<or> length df < max RSI_WINDOW ATR_WINDOW + 1 then Inr (None, None, None, None)
      else
        and_then (ta_rsi ev df) (\<lambda>rsi_series.
        and_then (ta_atr ev df) (\<lambda>atr_series.
          Inr (Some rsi_series, Some atr_series,
               (if rsi_series = [] then None else Some (last rsi_series)),
               (if atr_series = [] then None else Some (last atr_series))))))"

text \<open>\<open>float(x)\<close> raises a \<open>TypeError\<close> on \<open>None\<close>.\<close>

definition to_float :: "fl option \<Rightarrow> error + fl" where
  "to_float x =
     (case x of
        None \<Rightarrow> Inl (TypeError (''float() argument must be a string or a real number, not ''
                              @ quoted ''NoneType''))
      | Some v \<Rightarrow> Inr v)"

text \<open>
  The dictionary returned by \<open>scan_symbol\<close>. The ten keys present in every result are
  fields; the ten further keys of a completed scan are the \<open>res_detail\<close>.
\<close>

record detail =
  max_rsi :: "fl option"
  min_rsi :: "fl option"
  det_swing_high :: "fl option"
  det_atr_contribution :: "fl option"
  det_distance_from_threshold :: "fl option"
  det_distance_pct :: "fl option"
  det_proximity_pct :: "fl option"
  det_price_range :: "fl option"
  data_points :: nat
  cached :: bool

record scan_result =
  res_symbol :: string
  status :: string
  latest_rsi :: "fl option"
  latest_atr :: "fl option"
  hit_high :: bool
  hit_low :: bool
  res_is_overextended :: bool
  res_swing_low :: "fl option"
  overextended_threshold :: "fl option"
  res_current_price :: "fl option"
  res_detail :: "detail option"

definition bare_result :: "string \<Rightarrow> string \<Rightarrow> scan_result" where
  "bare_result s st =
     \<lparr>res_symbol = s, status = st, latest_rsi = None, latest_atr = None,
      hit_high = False, hit_low = False, res_is_overextended = False,
      res_swing_low = None, overextended_threshold = None, res_current_price = None,
      res_detail = None\<rparr>"

definition status_of :: "bool \<Rightarrow> bool \<Rightarrow> bool \<Rightarrow> string" where
  "status_of hh hl ov =
     (let st = ''no_hit'';
          st = (if hh then ''RSI>=90'' else st);
          st = (if hl then (if st = ''no_hit'' then ''RSI<=10'' else st @ '';RSI<=10'') else st);
          st = (if ov then (if st = ''no_hit'' then ''overextended'' else st @ '';overextended'')
                else st)
      in st)"

text \<open>The body of the \<open>try\<close> block.\<close>

definition scan_symbol_try :: "env \<Rightarrow> string \<Rightarrow> error + scan_result" where
  "scan_symbol_try ev s =
     and_then (get_historical_data ev s) (\<lambda>df.
       if df = [] \<or> length df < max RSI_WINDOW ATR_WINDOW + 1
       then Inr (bare_result s ''insufficient_data'')
       else
         and_then (compute_indicators ev df) (\<lambda>(rsi_opt, atr_opt, l_rsi, l_atr).
           case rsi_opt of
             None \<Rightarrow> Inr (bare_result s ''calculation_failed'')
           | Some rsi_series \<Rightarrow>
               (case l_rsi of
                  None \<Rightarrow> Inr (bare_result s ''calculation_failed'')
                | Some rsi_v \<Rightarrow>
                    and_then (save_indicators ev s df rsi_series (case atr_opt of None \<Rightarrow> [] | Some a \<Rightarrow> a))
                    (\<lambda>_.
                      let (hh, hl, mx, mn) =
                            check_rsi_extremes rsi_series RSI_LOOKBACK_DAYS
                              RSI_HIGH_THRESHOLD RSI_LOW_THRESHOLD;
                          m = check_overextended df l_atr OVEREXTENDED_LOOKBACK_DAYS
                                OVEREXTENDED_ATR_MULTIPLIER;
                          st = status_of hh hl (is_overextended m)
                      in
                        and_then (to_float l_atr) (\<lambda>atr_v.
                        and_then (cache_should_fetch ev s) (\<lambda>fetch.
                        and_then (save_scan_result ev s rsi_v atr_v hh hl st (is_overextended m)
                                    (swing_low m) (threshold m) (current_price m))
                        (\<lambda>_.
                          Inr \<lparr>res_symbol = s, status = st,
                               latest_rsi = Some rsi_v, latest_atr = Some atr_v,
                               hit_high = hh, hit_low = hl,
                               res_is_overextended = is_overextended m,
                               res_swing_low = swing_low m,
                               overextended_threshold = threshold m,
                               res_current_price = current_price m,
                               res_detail = Some
                                 \<lparr>max_rsi = mx, min_rsi = mn,
                                  det_swing_high = swing_high m,
                                  det_atr_contribution = atr_contribution m,
                                  det_distance_from_threshold = distance_from_threshold m,
                                  det_distance_pct = distance_pct m,
                                  det_proximity_pct = proximity_pct m,
                                  det_price_range = price_range m,
                                  data_points = length df,
                                  cached = (\<not> fetch)\<rparr>\<rparr>)))))))"

text \<open>\<open>scan_symbol\<close>: the \<open>try\<close> block under its \<open>except Exception\<close> handler.\<close>

definition scan_symbol :: "env \<Rightarrow> string \<Rightarrow> scan_result" where
  "scan_symbol ev s =
     (case scan_symbol_try ev s of
        Inl e \<Rightarrow> bare_result s (''error:'' @ str_error e)
      | Inr r \<Rightarrow> r)"


section \<open>Derived notions used in the statements\<close>

fun list_max :: "int list \<Rightarrow> int option" where
  "list_max [] = None"
| "list_max (x # xs) = (case list_max xs of None \<Rightarrow> Some x | Some m \<Rightarrow> Some (max x m))"

text \<open>The calendar days of the bars stored for a symbol.\<close>

definition stored_days :: "db \<Rightarrow> string \<Rightarrow> date list" where
  "stored_days st s = map cell_day (symbol_dates st s)"


text \<open>The rows from which \<open>check_overextended\<close> takes the swing low and high.\<close>

definition prev_days :: "bar list \<Rightarrow> nat \<Rightarrow> bar list" where
  "prev_days df lookback_days = butlast (iloc_last (lookback_days + 1) df)"

section \<open>Concrete inputs\<close>

text \<open>A bar of day \<open>d\<close> at a flat price, dated by a \<open>datetime.date\<close>.\<close>

definition date_bar :: "date \<Rightarrow> real \<Rightarrow> bar" where
  "date_bar d p = \<lparr>date = DateObj d, openp = Fin p, high = Fin p, low = Fin p, close = Fin p, volume = 1000\<rparr>"

text \<open>The same bar dated by the timestamp of midnight.\<close>

definition stamp_bar :: "date \<Rightarrow> real \<Rightarrow> bar" where
  "stamp_bar d p = \<lparr>date = Timestamp (combine_min_time d), openp = Fin p, high = Fin p, low = Fin p,
                    close = Fin p, volume = 1000\<rparr>"

definition mk_bar :: "date \<Rightarrow> real \<Rightarrow> real \<Rightarrow> real \<Rightarrow> real \<Rightarrow> bar" where
  "mk_bar d o' h l c = \<lparr>date = Timestamp (combine_min_time d), openp = Fin o', high = Fin h,
                        low = Fin l, close = Fin c, volume = 1000\<rparr>"

definition empty_db :: db where
  "empty_db = \<lparr>price_data = [], cache_metadata = Map.empty\<rparr>"

text \<open>Scenario D: bars cached for days 10 to 40, stored from frames of \<open>datetime.date\<close>.\<close>

definition scenario_D_db :: db where
  "scenario_D_db =
     \<lparr>price_data = map (\<lambda>d. with_symbol ''SPY'' (date_bar d 100)) [10..40],
      cache_metadata = Map.empty\<rparr>"

text \<open>The store after the bar of day 5 was submitted to the empty store at time 7.\<close>

definition day5_db :: db where
  "day5_db =
     \<lparr>price_data = [with_symbol ''SPY'' (stamp_bar 5 99)],
      cache_metadata = [''SPY'' \<mapsto> \<lparr>last_updated = 7, last_date = Some 5, record_count = 1\<rparr>]\<rparr>"

text \<open>The store after the bar of day 20 was submitted to the empty store at time 7.\<close>

definition day20_db :: db where
  "day20_db =
     \<lparr>price_data = [with_symbol ''SPY'' (stamp_bar 20 100)],
      cache_metadata = [''SPY'' \<mapsto> \<lparr>last_updated = 7, last_date = Some 20, record_count = 1\<rparr>]\<rparr>"

text \<open>
  The store after seventeen bars (days 14 to 30) were submitted to the empty store at
  18:00 of day 30.
\<close>

definition seventeen_bars :: "bar list" where
  "seventeen_bars = map (\<lambda>d. stamp_bar d 100) [14..30]"

definition seventeen_db :: db where
  "seventeen_db =
     \<lparr>price_data = map (with_symbol ''SPY'') seventeen_bars,
      cache_metadata = [''SPY'' \<mapsto> \<lparr>last_updated = combine_min_time 30 + 64800,
                                      last_date = Some 30, record_count = 17\<rparr>]\<rparr>"

text \<open>Scenario C: three bars, as in the insufficient-data case of tests/test_overextended.py.\<close>

definition three_bars :: "bar list" where
  "three_bars = [mk_bar 1 100 101 99 100, mk_bar 2 101 102 100 101, mk_bar 3 102 103 101 102]"

text \<open>Scenario A: lows 100, 95, 90, 92, 96, 99 and a last close of 106.\<close>

definition scenario_A_bars :: "bar list" where
  "scenario_A_bars =
     [mk_bar 1 101 102 100 101, mk_bar 2 96 97 95 96, mk_bar 3 91 92 90 91,
      mk_bar 4 93 94 92 93, mk_bar 5 97 98 96 97, mk_bar 6 100 107 99 106]"

text \<open>Six bars with lows at 0 and closes at 1; with a volatility of 0 the threshold is 0.\<close>

definition zero_low_bars :: "bar list" where
  "zero_low_bars = map (\<lambda>d. mk_bar d 1 1 0 1) [1, 2, 3, 4, 5, 6]"



section \<open>Properties of the store\<close>

lemma symbol_with_symbol [simp]: "symbol (with_symbol s b) = s"
  by (simp add: with_symbol_def bar.defs)

lemma date_with_symbol [simp]: "date (with_symbol s b) = date b"
  by (simp add: with_symbol_def bar.defs)

lemma date_of_combine [simp]: "date_of (combine_min_time d) = d"
  by (simp add: date_of_def combine_min_time_def seconds_per_day_def)

lemma combine_min_time_eq [simp]: "(combine_min_time a = combine_min_time b) = (a = b)"
  by (simp add: combine_min_time_def seconds_per_day_def)

lemma combine_min_time_less [simp]: "(combine_min_time a < combine_min_time b) = (a < b)"
  by (simp add: combine_min_time_def seconds_per_day_def)

lemma combine_min_time_le [simp]: "(combine_min_time a \<le> combine_min_time b) = (a \<le> b)"
  by (simp add: combine_min_time_def seconds_per_day_def)

lemma date_of_mono: "a \<le> b \<Longrightarrow> date_of a \<le> date_of b"
  by (simp add: date_of_def seconds_per_day_def zdiv_mono1)

lemma cell_day_chron: "cell_day c = date_of (chron_key c)"
  by (cases c) simp_all

text \<open>A successful multi-row insert appends the rows in order.\<close>

lemma insert_rows_Inr: "insert_rows tbl rs = Inr t \<Longrightarrow> t = tbl @ rs"
proof (induction rs arbitrary: tbl)
  case Nil then show ?case by simp
next
  case (Cons r rs)
  from Cons.prems have "insert_rows (tbl @ [r]) rs = Inr t" by (auto split: if_splits)
  from Cons.IH [OF this] show ?case by simp
qed

text \<open>Re-inserting rows whose first one is already stored violates the unique key.\<close>

lemma insert_rows_present:
  assumes "rs \<noteq> []" "hd rs \<in> set tbl"
  shows "insert_rows tbl rs = Inl unique_failed"
  using assms by (cases rs) (auto simp: key_conflict_def list_ex_iff)

text \<open>
  Once a non-empty bar set has been stored without an exception, every further
  submission of the same set raises the integrity error and stores nothing.
\<close>

lemma save_price_data_again_rejected:
  assumes "save_price_data st s df t1 = (st', None)" and "df \<noteq> []"
  shows "save_price_data st' s df t2 = (st', Some unique_failed)"
proof -
  from assms have v: "\<not> 7 * length df > SQLITE_MAX_VARIABLE_NUMBER"
    by (auto simp: save_price_data_def split: if_splits)
  from assms v have b: "bind_rows (date_dtype df) df = None"
    by (auto simp: save_price_data_def split: option.splits)
  from assms v b obtain tbl where ins: "insert_rows (price_data st) (map (with_symbol s) df) = Inr tbl"
    and p: "price_data st' = tbl"
    by (auto simp: save_price_data_def split: sum.splits)
  from ins have tbl: "tbl = price_data st @ map (with_symbol s) df" by (rule insert_rows_Inr)
  have "insert_rows tbl (map (with_symbol s) df) = Inl unique_failed"
    using assms(2) by (intro insert_rows_present) (auto simp: tbl hd_map intro: hd_in_set)
  then show ?thesis using assms(2) p b v by (simp add: save_price_data_def)
qed

lemma column_max_Some: "cs \<noteq> [] \<Longrightarrow> \<exists>c. column_max cs = Some c"
  by (cases cs) (simp_all split: option.split)

text \<open>The day of the latest cell of a column is the latest day of the column.\<close>

lemma column_max_day:
  "column_max cs = Some c \<Longrightarrow> list_max (map cell_day cs) = Some (cell_day c)"
proof (induction cs arbitrary: c)
  case Nil then show ?case by simp
next
  case (Cons x xs)
  show ?case
  proof (cases "column_max xs")
    case None
    then have "xs = []" by (cases xs) (auto split: option.splits)
    with Cons.prems show ?thesis by simp
  next
    case (Some m)
    from Cons.IH [OF Some] have l: "list_max (map cell_day xs) = Some (cell_day m)" .
    show ?thesis
    proof (cases "chron_key m < chron_key x")
      case True
      then have "cell_day m \<le> cell_day x" by (simp add: cell_day_chron date_of_mono)
      with Cons.prems Some True l show ?thesis by (auto simp: max_def)
    next
      case False
      then have "cell_day x \<le> cell_day m" by (simp add: cell_day_chron date_of_mono)
      with Cons.prems Some False l show ?thesis by (auto simp: max_def)
    qed
  qed
qed


lemma upto_14_30: "[14..30::int] = [14,15,16,17,18,19,20,21,22,23,24,25,26,27,28,29,30]"
  by (simp add: upto_rec1)

lemmas store_eval = save_price_data_def SQLITE_MAX_VARIABLE_NUMBER_def date_dtype_def
  fits_int64_def key_conflict_def last_date_arg_def stamp_bar_def date_bar_def empty_db_def

text \<open>The concrete stores are reachable: they are what \<open>save_price_data\<close> leaves.\<close>

lemma day20_db_reached:
  "save_price_data empty_db ''SPY'' [stamp_bar 20 100] 7 = (day20_db, None)"
  by (simp add: store_eval day20_db_def)

lemma seventeen_db_reached:
  "save_price_data empty_db ''SPY'' seventeen_bars (combine_min_time 30 + 64800)
     = (seventeen_db, None)"
  by (simp add: store_eval seventeen_db_def seventeen_bars_def upto_14_30 date_of_def
      seconds_per_day_def combine_min_time_def with_symbol_def bar.defs eval_nat_numeral)

text \<open>
  A frame whose dates are \<open>datetime.date\<close> objects, as the scanner's data source
  delivers them: the rows are inserted and committed, then preparing the metadata row
  raises, and no metadata is written.
\<close>

lemma save_price_data_date_objects:
  "save_price_data empty_db ''SPY'' [date_bar 5 99] 7 =
     (\<lparr>price_data = [with_symbol ''SPY'' (date_bar 5 99)], cache_metadata = Map.empty\<rparr>,
      Some no_date_attribute)"
  by (simp add: store_eval)

text \<open>
  The single range returned when both edges of the required window are missing: it runs
  from the day after the cached end to the day before the cached start, so it starts
  after it ends.
\<close>

lemma get_missing_date_range_both_edges:
  assumes "sql_min (symbol_dates st s) = Some (DateObj cached_start)"
      and "sql_max (symbol_dates st s) = Some (DateObj cached_end)"
      and "cached_start > date_of required_start" and "cached_end < date_of required_end"
  shows "get_missing_date_range st s required_start required_end =
           Inr (Some (combine_min_time (cached_end + 1), combine_min_time (cached_start - 1)))"
  using assms by (simp add: get_missing_date_range_def and_then_def)

text \<open>
  Claim C1 (gap computation with both edges missing, scenario D). With bars cached for
  days 10 to 40 and the required window from day 1 to day 50, the claim expects the two
  ranges [day 1, day 9] and [day 41, day 50]. \<open>get_missing_date_range\<close> returns one
  range, from day 41 to day 9: its start lies after its end.
\<close>

theorem get_missing_date_range_scenario_D:
  "get_missing_date_range scenario_D_db ''SPY'' (combine_min_time 1) (combine_min_time 50)
     = Inr (Some (combine_min_time 41, combine_min_time 9))
   \<and> combine_min_time 41 > combine_min_time 9"
  by code_simp

text \<open>
  Claim C2 (idempotent upsert). The claim expects the second submission of a bar set to
  be merged without effect. The first submission of the bar of day 5 to the empty store
  succeeds; the second submission of the same bar raises the integrity error of the
  unique key (symbol, date) instead of merging.
\<close>

theorem save_price_data_resubmission_raises:
  "save_price_data empty_db ''SPY'' [stamp_bar 5 99] 7 = (day5_db, None)
   \<and> save_price_data day5_db ''SPY'' [stamp_bar 5 99] 8 = (day5_db, Some unique_failed)"
  by (simp add: store_eval day5_db_def)

text \<open>
  Claim C3 (freshness record after a merge). The claim, that the record holds the maximum
  date and the count of all bars now stored, fails: with the bar of day 20 stored, a
  successful submission of the bar of day 5 records last date 5 and count 1, while the
  store holds two bars with maximum date 20.
\<close>

theorem save_price_data_metadata_counterexample:
  "(case save_price_data day20_db ''SPY'' [stamp_bar 5 99] 8 of
      (st', e) \<Rightarrow>
        e = None
        \<and> map_option last_date (cache_metadata st' ''SPY'') = Some (Some 5)
        \<and> list_max (stored_days st' ''SPY'') = Some 20
        \<and> map_option record_count (cache_metadata st' ''SPY'') = Some 1
        \<and> length (stored_days st' ''SPY'') = 2)"
  by (simp add: store_eval day20_db_def stored_days_def symbol_dates_def symbol_rows_def)

text \<open>
  Claim C3 as amended. A call that returns without an exception on an empty batch leaves
  the store as it was. After a call that returns without an exception on a non-empty
  batch, the record holds the time of the call, the maximum date of the submitted batch
  and the number of bars of the submitted batch; the stored days of the instrument are
  the previous ones followed by the batch's. When no bar of the instrument was stored
  before, these are the maximum date and the count of all bars now stored.
\<close>

theorem save_price_data_metadata_batch:
  assumes "save_price_data st s df now = (st', None)"
  shows "(df = [] \<longrightarrow> st' = st)
       \<and> (df \<noteq> [] \<longrightarrow>
            cache_metadata st' s =
              Some \<lparr>last_updated = now, last_date = list_max (map (cell_day \<circ> date) df),
                    record_count = length df\<rparr>
            \<and> stored_days st' s = stored_days st s @ map (cell_day \<circ> date) df
            \<and> (stored_days st s = [] \<longrightarrow>
                 map_option last_date (cache_metadata st' s) = Some (list_max (stored_days st' s))
                 \<and> map_option record_count (cache_metadata st' s)
                     = Some (length (stored_days st' s))))"
proof (cases "df = []")
  case True
  with assms show ?thesis by (simp add: save_price_data_def)
next
  case False
  from assms False obtain tbl d where
        ins: "insert_rows (price_data st) (map (with_symbol s) df) = Inr tbl"
    and ld: "last_date_arg df = Inr d"
    and st': "st' = st\<lparr>price_data := tbl,
                       cache_metadata := (cache_metadata st)
                         (s \<mapsto> \<lparr>last_updated = now, last_date = d, record_count = length df\<rparr>)\<rparr>"
    by (auto simp: save_price_data_def split: if_splits option.splits sum.splits)
  from False obtain c where cm: "column_max (map date df) = Some c"
    using column_max_Some [of "map date df"] by auto
  from ld cm have d: "d = Some (cell_day c)"
    by (cases c) (auto simp: last_date_arg_def)
  from column_max_day [OF cm] have dm: "d = list_max (map (cell_day \<circ> date) df)"
    by (simp add: d)
  have tbl: "tbl = price_data st @ map (with_symbol s) df" using ins by (rule insert_rows_Inr)
  have m: "cache_metadata st' s =
           Some \<lparr>last_updated = now, last_date = list_max (map (cell_day \<circ> date) df),
                 record_count = length df\<rparr>"
    by (simp add: st' dm)
  have sd: "stored_days st' s = stored_days st s @ map (cell_day \<circ> date) df"
    by (simp add: st' tbl stored_days_def symbol_dates_def symbol_rows_def filter_map o_def)
  show ?thesis using False m sd by simp
qed

theorem save_price_data_metadata_batch_witness:
  "save_price_data empty_db ''SPY'' [stamp_bar 5 99] 7 = (day5_db, None)
   \<and> [stamp_bar 5 99] \<noteq> []
   \<and> stored_days empty_db ''SPY'' = []
   \<and> cache_metadata day5_db ''SPY''
       = Some \<lparr>last_updated = 7, last_date = Some 5, record_count = 1\<rparr>
   \<and> stored_days day5_db ''SPY'' = [5]
   \<and> list_max (stored_days day5_db ''SPY'') = Some 5"
proof -
  have h: "save_price_data empty_db ''SPY'' [stamp_bar 5 99] 7 = (day5_db, None)"
    by (simp add: store_eval day5_db_def)
  have e: "stored_days empty_db ''SPY'' = []"
    by (simp add: stored_days_def symbol_dates_def symbol_rows_def empty_db_def)
  from save_price_data_metadata_batch [OF h] h e show ?thesis
    by (simp add: stamp_bar_def)
qed

section \<open>Properties of the cache coordinator\<close>






section \<open>Properties of the overextension measurement\<close>

lemma clamp_range: "\<exists>q. py_max (Fin 0) (py_min (Fin 100) p) = Fin q \<and> 0 \<le> q \<and> q \<le> 100"
  by (cases p) (auto simp: py_max_def py_min_def fgt_def)

lemma clamp_fin: "py_max (Fin 0) (py_min (Fin 100) (Fin x)) = Fin (max 0 (min 100 x))"
  by (auto simp: py_max_def py_min_def fgt_def)

lemma iloc_last_nonempty: "xs \<noteq> [] \<Longrightarrow> iloc_last k xs \<noteq> []"
  by (cases xs) (auto simp: iloc_last_def)

text \<open>The three outcomes of \<open>check_overextended\<close>, by the guards it passes.\<close>

lemma check_overextended_short:
  "length df < L + 1 \<Longrightarrow> check_overextended df a L m = initial_result a"
  by (simp add: check_overextended_def Let_def)

lemma check_overextended_no_atr:
  assumes "L + 1 \<le> length df" and "a = None \<or> a = Some NaN"
  shows "check_overextended df a L m =
     (initial_result a)\<lparr>swing_low := Some (series_min (map low (prev_days df L))),
        swing_high := Some (series_max (map high (prev_days df L))),
        current_price := Some (close (last df)),
        price_range := Some (fsub (series_max (map high (prev_days df L))) (series_min (map low (prev_days df L))))\<rparr>"
proof -
  from assms(1) have ne: "df \<noteq> []" by auto
  then have r: "iloc_last (L + 1) df \<noteq> []" by (rule iloc_last_nonempty)
  from assms(1) have l: "\<not> length df < L + 1" by simp
  show ?thesis using assms(2) ne r l
    by (auto simp: check_overextended_def Let_def prev_days_def isna_def)
qed

lemma check_overextended_with_atr:
  assumes "L + 1 \<le> length df" and "a \<noteq> NaN"
  shows "check_overextended df (Some a) L m =
     (let sl = series_min (map low (prev_days df L));
          sh = series_max (map high (prev_days df L));
          cp = close (last df);
          th = fadd sl (fmul a (Fin (of_int m)))
      in \<lparr>is_overextended = fgt cp th, swing_low = Some sl, swing_high = Some sh, atr = Some a,
      atr_contribution = Some (fmul a (Fin (of_int m))), threshold = Some th, current_price = Some cp,
      distance_from_threshold = Some (fsub cp th), distance_pct = Some (fmul (fdiv (fsub cp th) th) (Fin 100)),
      proximity_pct = Some (if fgt th sl then py_max (Fin 0) (py_min (Fin 100)
                                       (fmul (fdiv (fsub cp sl) (fsub th sl)) (Fin 100))) else Fin 0),
      price_range = Some (fsub sh sl), calculation_valid = True\<rparr>)"
proof -
  from assms(1) have ne: "df \<noteq> []" by auto
  then have r: "iloc_last (L + 1) df \<noteq> []" by (rule iloc_last_nonempty)
  from assms(1) have l: "\<not> length df < L + 1" by simp
  show ?thesis using assms(2) ne r l
    by (simp add: check_overextended_def Let_def prev_days_def isna_def initial_result_def)
qed

lemmas bars_eval = prev_days_def iloc_last_def mk_bar_def series_min_def series_max_def
  dropna_def isna_def fsub_def fgt_def py_min_def py_max_def

text \<open>
  Claim C5 as amended. For every series with fewer than L+1 bars the measurement is
  invalid: \<open>calculation_valid\<close> and \<open>is_overextended\<close> are false and every numeric
  field other than \<open>atr\<close> is null; the field \<open>atr\<close> holds the volatility argument
  as it was passed.
\<close>

theorem check_overextended_short_series:
  assumes "length df < L + 1"
  shows "calculation_valid (check_overextended df a L m) = False
       \<and> is_overextended (check_overextended df a L m) = False
       \<and> swing_low (check_overextended df a L m) = None
       \<and> swing_high (check_overextended df a L m) = None
       \<and> atr_contribution (check_overextended df a L m) = None
       \<and> threshold (check_overextended df a L m) = None
       \<and> current_price (check_overextended df a L m) = None
       \<and> distance_from_threshold (check_overextended df a L m) = None
       \<and> distance_pct (check_overextended df a L m) = None
       \<and> proximity_pct (check_overextended df a L m) = None
       \<and> price_range (check_overextended df a L m) = None
       \<and> atr (check_overextended df a L m) = a"
  by (simp add: check_overextended_short [OF assms] initial_result_def)

theorem check_overextended_short_series_witness:
  "length three_bars < 5 + 1
   \<and> calculation_valid (check_overextended three_bars (Some (Fin 2)) 5 5) = False
   \<and> swing_low (check_overextended three_bars (Some (Fin 2)) 5 5) = None
   \<and> current_price (check_overextended three_bars (Some (Fin 2)) 5 5) = None
   \<and> proximity_pct (check_overextended three_bars (Some (Fin 2)) 5 5) = None"
proof -
  have h: "length three_bars < 5 + 1" by (simp add: three_bars_def)
  from check_overextended_short_series [OF h, of "Some (Fin 2)" 5] h show ?thesis by simp
qed

text \<open>
  Claim C5 (short series, scenario C). The claim, that every numeric field including the
  ATR is null, fails: with 3 bars, lookback 5 and the volatility argument 2.0 of
  tests/test_overextended.py, the field \<open>atr\<close> of the result is 2.0.
\<close>

theorem check_overextended_short_series_counterexample:
  "length three_bars < 5 + 1
   \<and> atr (check_overextended three_bars (Some (Fin 2)) 5 5) = Some (Fin 2)
   \<and> atr (check_overextended three_bars (Some (Fin 2)) 5 5) \<noteq> None"
  by (simp add: check_overextended_def three_bars_def initial_result_def)

text \<open>
  Claim C10 (missing volatility). For every series with at least L+1 bars whose
  volatility argument is \<open>None\<close> or NaN, the measurement is invalid and not
  overextended; swing low, swing high, current price and price range are populated from
  the series (minimum low and maximum high of the L bars before the last one, the last
  close, and the difference of the two swings), while ATR contribution, threshold,
  distance, distance percent and proximity percent stay null.
\<close>

theorem check_overextended_missing_atr:
  assumes "L + 1 \<le> length df" and "a = None \<or> a = Some NaN"
  shows "calculation_valid (check_overextended df a L m) = False
       \<and> is_overextended (check_overextended df a L m) = False
       \<and> swing_low (check_overextended df a L m) = Some (series_min (map low (prev_days df L)))
       \<and> swing_high (check_overextended df a L m) = Some (series_max (map high (prev_days df L)))
       \<and> current_price (check_overextended df a L m) = Some (close (last df))
       \<and> price_range (check_overextended df a L m)
           = Some (fsub (series_max (map high (prev_days df L)))
                        (series_min (map low (prev_days df L))))
       \<and> atr_contribution (check_overextended df a L m) = None
       \<and> threshold (check_overextended df a L m) = None
       \<and> distance_from_threshold (check_overextended df a L m) = None
       \<and> distance_pct (check_overextended df a L m) = None
       \<and> proximity_pct (check_overextended df a L m) = None"
  by (simp add: check_overextended_no_atr [OF assms] initial_result_def)

theorem check_overextended_missing_atr_witness:
  "5 + 1 \<le> length scenario_A_bars
   \<and> calculation_valid (check_overextended scenario_A_bars None 5 5) = False
   \<and> swing_low (check_overextended scenario_A_bars None 5 5) = Some (Fin 90)
   \<and> swing_high (check_overextended scenario_A_bars None 5 5) = Some (Fin 102)
   \<and> current_price (check_overextended scenario_A_bars None 5 5) = Some (Fin 106)
   \<and> price_range (check_overextended scenario_A_bars None 5 5) = Some (Fin 12)
   \<and> threshold (check_overextended scenario_A_bars None 5 5) = None"
proof -
  have h: "5 + 1 \<le> length scenario_A_bars" by (simp add: scenario_A_bars_def)
  have p: "series_min (map low (prev_days scenario_A_bars 5)) = Fin 90"
          "series_max (map high (prev_days scenario_A_bars 5)) = Fin 102"
          "close (last scenario_A_bars) = Fin 106"
    by (simp_all add: scenario_A_bars_def bars_eval)
  from check_overextended_missing_atr [OF h, of None 5] h p show ?thesis
    by (simp add: fsub_def)
qed

text \<open>
  Claim C4 as amended. For every series with at least L+1 bars and a defined volatility
  the measurement is valid whatever the sign of the threshold: the distance percent is
  always computed as (current price - threshold) / threshold * 100, which for a non-zero
  threshold is the ordinary quotient, and \<open>is_overextended\<close> is always
  current price > threshold. No guard applies.
\<close>

theorem check_overextended_no_threshold_guard:
  assumes "L + 1 \<le> length df" and "a \<noteq> NaN"
  shows "calculation_valid (check_overextended df (Some a) L m)
       \<and> (\<exists>th cp. threshold (check_overextended df (Some a) L m) = Some th
                 \<and> current_price (check_overextended df (Some a) L m) = Some cp
                 \<and> distance_pct (check_overextended df (Some a) L m)
                     = Some (fmul (fdiv (fsub cp th) th) (Fin 100))
                 \<and> is_overextended (check_overextended df (Some a) L m) = fgt cp th)
       \<and> (\<forall>t c. threshold (check_overextended df (Some a) L m) = Some (Fin t)
                 \<and> current_price (check_overextended df (Some a) L m) = Some (Fin c)
                 \<and> t \<noteq> 0
               \<longrightarrow> distance_pct (check_overextended df (Some a) L m) = Some (Fin ((c - t) / t * 100))
                   \<and> is_overextended (check_overextended df (Some a) L m) = (t < c))"
  unfolding check_overextended_with_atr [OF assms]
  by (auto simp: Let_def fsub_def fgt_def)

text \<open>Scenario A of the specification, evaluated.\<close>

lemma scenario_A_values:
  "series_min (map low (prev_days scenario_A_bars 5)) = Fin 90"
  "series_max (map high (prev_days scenario_A_bars 5)) = Fin 102"
  "close (last scenario_A_bars) = Fin 106"
  by (simp_all add: scenario_A_bars_def bars_eval)

lemma scenario_A_measurement:
  "check_overextended scenario_A_bars (Some (Fin 3)) 5 5 =
     \<lparr>is_overextended = True, swing_low = Some (Fin 90), swing_high = Some (Fin 102),
      atr = Some (Fin 3), atr_contribution = Some (Fin 15), threshold = Some (Fin 105),
      current_price = Some (Fin 106), distance_from_threshold = Some (Fin 1),
      distance_pct = Some (Fin (20 / 21)), proximity_pct = Some (Fin 100),
      price_range = Some (Fin 12), calculation_valid = True\<rparr>"
proof -
  have h: "5 + 1 \<le> length scenario_A_bars" by (simp add: scenario_A_bars_def)
  have n: "Fin 3 \<noteq> NaN" by simp
  show ?thesis unfolding check_overextended_with_atr [OF h n]
    by (simp add: scenario_A_values Let_def fsub_def fgt_def py_min_def py_max_def)
qed

theorem check_overextended_no_threshold_guard_witness:
  "5 + 1 \<le> length scenario_A_bars \<and> Fin 3 \<noteq> NaN
   \<and> calculation_valid (check_overextended scenario_A_bars (Some (Fin 3)) 5 5)
   \<and> threshold (check_overextended scenario_A_bars (Some (Fin 3)) 5 5) = Some (Fin 105)
   \<and> distance_pct (check_overextended scenario_A_bars (Some (Fin 3)) 5 5) = Some (Fin (20 / 21))
   \<and> is_overextended (check_overextended scenario_A_bars (Some (Fin 3)) 5 5)"
proof -
  have h: "5 + 1 \<le> length scenario_A_bars" by (simp add: scenario_A_bars_def)
  have n: "Fin 3 \<noteq> NaN" by simp
  from check_overextended_no_threshold_guard [OF h n, of 5] h n show ?thesis
    by (simp add: scenario_A_measurement)
qed

text \<open>
  Claim C4 (guard on a non-positive threshold). The claim, that with a threshold of zero
  or less the distance percent is undefined and the measurement is not overextended,
  fails: with swing low 0 and volatility 0 the threshold is 0, the distance percent is
  the quotient 1/0 of the float division (positive infinity), and the close of 1 above
  the threshold makes the measurement overextended.
\<close>

theorem check_overextended_zero_threshold:
  "5 + 1 \<le> length zero_low_bars
   \<and> threshold (check_overextended zero_low_bars (Some (Fin 0)) 5 5) = Some (Fin 0)
   \<and> distance_pct (check_overextended zero_low_bars (Some (Fin 0)) 5 5) = Some PInf
   \<and> is_overextended (check_overextended zero_low_bars (Some (Fin 0)) 5 5) = True
   \<and> calculation_valid (check_overextended zero_low_bars (Some (Fin 0)) 5 5) = True"
proof -
  have h: "5 + 1 \<le> length zero_low_bars" by (simp add: zero_low_bars_def)
  have n: "Fin 0 \<noteq> NaN" by simp
  have v: "series_min (map low (prev_days zero_low_bars 5)) = Fin 0"
          "close (last zero_low_bars) = Fin 1"
    by (simp_all add: zero_low_bars_def bars_eval)
  show ?thesis unfolding check_overextended_with_atr [OF h n]
    using h by (simp add: v Let_def fsub_def fgt_def inf_of_sign_def)
qed

text \<open>
  Claim C7 (proximity is clamped). Whenever the proximity percent is defined it is a
  finite number between 0 and 100, and for finite swing low, threshold and current price
  it is clamp((current price - swing low) / (threshold - swing low) * 100, 0, 100) when
  the threshold exceeds the swing low and 0 otherwise.
\<close>

theorem proximity_pct_clamped:
  assumes "proximity_pct (check_overextended df a L m) = Some p"
  shows "(\<exists>q. p = Fin q \<and> 0 \<le> q \<and> q \<le> 100)
       \<and> (\<forall>sl th cp.
             swing_low (check_overextended df a L m) = Some (Fin sl)
             \<and> threshold (check_overextended df a L m) = Some (Fin th)
             \<and> current_price (check_overextended df a L m) = Some (Fin cp)
             \<longrightarrow> p = Fin (if th > sl then max 0 (min 100 ((cp - sl) / (th - sl) * 100)) else 0))"
proof -
  have len: "L + 1 \<le> length df"
  proof (rule ccontr)
    assume "\<not> L + 1 \<le> length df"
    then have "check_overextended df a L m = initial_result a" by (simp add: check_overextended_short)
    with assms show False by (simp add: initial_result_def)
  qed
  obtain v where a: "a = Some v" and v: "v \<noteq> NaN"
  proof (cases "a = None \<or> a = Some NaN")
    case True
    from check_overextended_no_atr [OF len True, of m] assms show ?thesis by (simp add: initial_result_def)
  next
    case False
    then show ?thesis using that by (cases a) auto
  qed
  define sl0 where "sl0 = series_min (map low (prev_days df L))"
  define th0 where "th0 = fadd sl0 (fmul v (Fin (of_int m)))"
  define cp0 where "cp0 = close (last df)"
  define p0 where "p0 = (if fgt th0 sl0 then py_max (Fin 0) (py_min (Fin 100)
                  (fmul (fdiv (fsub cp0 sl0) (fsub th0 sl0)) (Fin 100))) else Fin 0)"
  have f: "swing_low (check_overextended df a L m) = Some sl0"
          "threshold (check_overextended df a L m) = Some th0"
          "current_price (check_overextended df a L m) = Some cp0"
          "proximity_pct (check_overextended df a L m) = Some p0"
    unfolding a check_overextended_with_atr [OF len v] by (simp_all add: Let_def sl0_def th0_def cp0_def p0_def)
  from assms f(4) have p: "p = p0" by simp
  have one: "\<exists>q. p = Fin q \<and> 0 \<le> q \<and> q \<le> 100"
  proof (cases "fgt th0 sl0")
    case True
    then show ?thesis unfolding p p0_def using clamp_range by simp
  next
    case False
    then show ?thesis unfolding p p0_def by simp
  qed
  have two: "p = Fin (if th > sl then max 0 (min 100 ((cp - sl) / (th - sl) * 100)) else 0)"
    if "sl0 = Fin sl" "th0 = Fin th" "cp0 = Fin cp" for sl th cp
    unfolding p p0_def that by (simp add: fgt_def fsub_def clamp_fin)
  show ?thesis using one two f by simp
qed

theorem proximity_pct_clamped_witness:
  "proximity_pct (check_overextended scenario_A_bars (Some (Fin 3)) 5 5) = Some (Fin 100)
   \<and> swing_low (check_overextended scenario_A_bars (Some (Fin 3)) 5 5) = Some (Fin 90)
   \<and> threshold (check_overextended scenario_A_bars (Some (Fin 3)) 5 5) = Some (Fin 105)
   \<and> current_price (check_overextended scenario_A_bars (Some (Fin 3)) 5 5) = Some (Fin 106)
   \<and> Fin 100 = Fin (max 0 (min 100 ((106 - 90) / (105 - 90) * 100)))"
proof -
  have h: "proximity_pct (check_overextended scenario_A_bars (Some (Fin 3)) 5 5) = Some (Fin 100)"
    by (simp add: scenario_A_measurement)
  from proximity_pct_clamped [OF h] h show ?thesis
    by (simp add: scenario_A_measurement)
qed

section \<open>Properties of the extreme check\<close>




section \<open>Properties of the scan pass\<close>



text \<open>A failure of the store while the indicators are saved ends up in the status.\<close>

lemma scan_symbol_store_failure:
  assumes "get_historical_data ev s = Inr df"
      and "max RSI_WINDOW ATR_WINDOW + 1 \<le> length df"
      and "ta_rsi ev df = Inr rsi" and "rsi \<noteq> []" and "ta_atr ev df = Inr atrs"
      and "save_indicators ev s df rsi atrs = Inl e"
  shows "scan_symbol ev s = bare_result s (''error:'' @ str_error e)"
proof -
  from assms(2) have "df \<noteq> []" by auto
  with assms show ?thesis
    by (simp add: scan_symbol_def scan_symbol_try_def compute_indicators_def and_then_def)
qed

text \<open>A failure of the store while the scan result is written ends up in the status.\<close>

lemma scan_symbol_result_write_failure:
  assumes "get_historical_data ev s = Inr df"
      and "max RSI_WINDOW ATR_WINDOW + 1 \<le> length df"
      and "ta_rsi ev df = Inr rsi" and "rsi \<noteq> []"
      and "ta_atr ev df = Inr atrs" and "atrs \<noteq> []"
      and "save_indicators ev s df rsi atrs = Inr ()"
      and "cache_should_fetch ev s = Inr f"
      and "\<And>r a hh hl st ov sl th cp. save_scan_result ev s r a hh hl st ov sl th cp = Inl e"
  shows "scan_symbol ev s = bare_result s (''error:'' @ str_error e)"
proof -
  from assms(2) have "df \<noteq> []" by auto
  with assms show ?thesis
    by (simp add: scan_symbol_def scan_symbol_try_def compute_indicators_def and_then_def
        to_float_def Let_def split: prod.splits)
qed

text \<open>
  A volatility series without a last value makes \<open>float(latest_atr)\<close> raise; the
  type error ends up in the status.
\<close>

lemma scan_symbol_float_of_None:
  assumes "get_historical_data ev s = Inr df"
      and "max RSI_WINDOW ATR_WINDOW + 1 \<le> length df"
      and "ta_rsi ev df = Inr rsi" and "rsi \<noteq> []"
      and "ta_atr ev df = Inr []"
      and "save_indicators ev s df rsi [] = Inr ()"
  shows "scan_symbol ev s =
           bare_result s (''error:float() argument must be a string or a real number, not ''
                          @ quoted ''NoneType'')"
proof -
  from assms(2) have "df \<noteq> []" by auto
  with assms show ?thesis
    by (simp add: scan_symbol_def scan_symbol_try_def compute_indicators_def and_then_def
        to_float_def Let_def split: prod.splits)
qed



end
